theory Spec2Isabelle
  imports Complex_Main "HOL-Library.Word" "HOL-Library.Sublist"
begin

section \<open>The token service of \<open>api.py\<close>\<close>

text \<open>
  The service is one module of request handlers over a single SQLite table. The embedding
  keeps the handlers' names and their order of checks. What Python leaves implicit is made
  explicit:
  \<^item> the table \<open>tokens\<close> is the list of its rows, in insertion order;
  \<^item> a handler takes the table and returns its outcome together with the table it leaves,
    so that a raised exception still shows which rows were written before it;
  \<^item> \<open>time.time()\<close>, the bytes drawn by \<open>secrets\<close> and \<open>os.environ\<close> are arguments;
  \<^item> timestamps are Python floats, modelled as real numbers: comparison and truncation are
    exact on floats, the rounding of \<open>+\<close> and \<open>-\<close> is not modelled;
  \<^item> strings are byte strings, and \<open>lower\<close>/\<open>upper\<close> act on the ASCII letters.
\<close>

subsection \<open>Exceptions and responses\<close>

datatype error =
    HTTPException int string    \<comment> \<open>\<open>HTTPException(status_code, detail)\<close>\<close>
  | KeyError string             \<comment> \<open>a missing key of the request body\<close>
  | IntegrityError string       \<comment> \<open>\<open>sqlite3.IntegrityError\<close>: the primary key is taken\<close>

datatype response =
    Status string
      \<comment> \<open>\<open>{"status": s}\<close>\<close>
  | Generated string string "real option"
      \<comment> \<open>\<open>{"token": t, "plan": p, "expires_at": e}\<close>\<close>
  | Inspected string "string option" bool "real option" "int option"
      \<comment> \<open>\<open>{"token", "hwid", "revoked", "expires_at", "seconds_remaining"}\<close>\<close>

type_synonym 's outcome = "(error + response) \<times> 's"

subsection \<open>Strings, truthiness and truncation as Python has them\<close>

definition ascii_lowercase :: string where
  "ascii_lowercase = ''abcdefghijklmnopqrstuvwxyz''"

definition ascii_uppercase :: string where
  "ascii_uppercase = ''ABCDEFGHIJKLMNOPQRSTUVWXYZ''"

definition lower_char :: "char \<Rightarrow> char" where
  "lower_char c =
     (case map_of (zip ascii_uppercase ascii_lowercase) c of None \<Rightarrow> c | Some d \<Rightarrow> d)"

definition lower :: "string \<Rightarrow> string" where
  "lower s = map lower_char s"

definition upper_char :: "char \<Rightarrow> char" where
  "upper_char c =
     (case map_of (zip ascii_lowercase ascii_uppercase) c of None \<Rightarrow> c | Some d \<Rightarrow> d)"

definition upper :: "string \<Rightarrow> string" where
  "upper s = map upper_char s"

fun join :: "string \<Rightarrow> string list \<Rightarrow> string" where
  "join sep [] = []"
| "join sep [x] = x"
| "join sep (x # y # ys) = x @ sep @ join sep (y # ys)"

text \<open>\<open>int(x)\<close> on a float truncates toward zero.\<close>

definition py_int :: "real \<Rightarrow> int" where
  "py_int x = (if 0 \<le> x then \<lfloor>x\<rfloor> else \<lceil>x\<rceil>)"

text \<open>
  The truth value of an optional float, as in \<open>if expires_at:\<close>: \<open>None\<close> is false, and
  so is the float \<open>0.0\<close>.
\<close>

definition truthy :: "real option \<Rightarrow> bool" where
  "truthy v = (case v of None \<Rightarrow> False | Some x \<Rightarrow> x \<noteq> 0)"

subsection \<open>\<open>secrets.token_hex\<close>\<close>

text \<open>
  \<open>token_hex(n)\<close> is \<open>token_bytes(n).hex()\<close>. The operating system's random source is the
  argument \<open>urandom\<close>: the byte it hands out at each position of this call.
\<close>

definition token_bytes :: "nat \<Rightarrow> (nat \<Rightarrow> 8 word) \<Rightarrow> 8 word list" where
  "token_bytes nbytes urandom = map urandom [0..<nbytes]"

definition hexdigits :: string where
  "hexdigits = ''0123456789abcdef''"

definition hex :: "8 word list \<Rightarrow> string" where
  "hex bs = concat (map (\<lambda>b. [hexdigits ! (unat b div 16), hexdigits ! (unat b mod 16)]) bs)"

definition token_hex :: "nat \<Rightarrow> (nat \<Rightarrow> 8 word) \<Rightarrow> string" where
  "token_hex nbytes urandom = hex (token_bytes nbytes urandom)"

subsection \<open>Module constants\<close>

type_synonym environment = "string \<rightharpoonup> string"

text \<open>\<open>ADMIN_KEY = os.getenv("ADMIN_KEY", "olly6969")\<close>, read once when the module loads.\<close>

definition ADMIN_KEY :: "environment \<Rightarrow> string" where
  "ADMIN_KEY environ = (case environ ''ADMIN_KEY'' of None \<Rightarrow> ''olly6969'' | Some v \<Rightarrow> v)"

text \<open>The dictionary keeps its insertion order; the value \<open>None\<close> is the unlimited plan.\<close>

definition PLAN_DURATIONS :: "(string \<times> int option) list" where
  "PLAN_DURATIONS =
     [(''1d'', Some (1 * 86400)),
      (''3d'', Some (3 * 86400)),
      (''1w'', Some (7 * 86400)),
      (''2w'', Some (14 * 86400)),
      (''3w'', Some (21 * 86400)),
      (''6w'', Some (42 * 86400)),
      (''1m'', Some (30 * 86400)),
      (''2m'', Some (60 * 86400)),
      (''3m'', Some (90 * 86400)),
      (''6m'', Some (180 * 86400)),
      (''9m'', Some (270 * 86400)),
      (''1y'', Some (365 * 86400)),
      (''2y'', Some (730 * 86400)),
      (''infinite'', None)]"

definition plan_keys :: "string list" where
  "plan_keys = map fst PLAN_DURATIONS"

subsection \<open>Requests\<close>

record VerifyRequest =
  token :: string
  hwid :: string

record GenerateRequest =
  plan :: string

text \<open>The admin handlers take the decoded JSON body as a plain \<open>dict\<close>.\<close>

type_synonym body = "string \<rightharpoonup> string"

subsection \<open>The table \<open>tokens\<close>\<close>

text \<open>
  \<open>token TEXT PRIMARY KEY, hwid TEXT, expires_at REAL, revoked INTEGER DEFAULT 0\<close>.
  A \<open>NULL\<close> is \<open>None\<close>. The column \<open>revoked\<close> is an integer, read by its truth value
  (\<open>if revoked:\<close>, \<open>bool(revoked)\<close>); the handlers write 0 and 1 to it.
  The field names of a row hide those of \<open>VerifyRequest\<close>, which are written
  \<open>VerifyRequest.token\<close> and \<open>VerifyRequest.hwid\<close> below.
\<close>

record row =
  token :: string
  hwid :: "string option"
  expires_at :: "real option"
  revoked :: int

type_synonym tokens = "row list"

text \<open>\<open>SELECT ... FROM tokens WHERE token = ?\<close> followed by \<open>fetchone()\<close>.\<close>

definition select_token :: "string \<Rightarrow> tokens \<Rightarrow> row option" where
  "select_token t tbl = find (\<lambda>r. token r = t) tbl"

text \<open>\<open>UPDATE tokens SET hwid = ? WHERE token = ?\<close>.\<close>

definition update_hwid :: "string option \<Rightarrow> string \<Rightarrow> tokens \<Rightarrow> tokens" where
  "update_hwid v t tbl = map (\<lambda>r. if token r = t then r\<lparr>hwid := v\<rparr> else r) tbl"

text \<open>\<open>UPDATE tokens SET revoked = 1 WHERE token = ?\<close>.\<close>

definition update_revoked :: "string \<Rightarrow> tokens \<Rightarrow> tokens" where
  "update_revoked t tbl = map (\<lambda>r. if token r = t then r\<lparr>revoked := 1\<rparr> else r) tbl"

text \<open>
  \<open>INSERT INTO tokens (token, expires_at, revoked) VALUES (?, ?, 0)\<close>: the column \<open>hwid\<close>
  is left \<open>NULL\<close>, and the primary key refuses a token that a row already has.
\<close>

definition insert_token :: "string \<Rightarrow> real option \<Rightarrow> tokens \<Rightarrow> error + tokens" where
  "insert_token t e tbl =
     (if t \<in> set (map token tbl)
      then Inl (IntegrityError ''UNIQUE constraint failed: tokens.token'')
      else Inr (tbl @ [\<lparr>token = t, hwid = None, expires_at = e, revoked = 0\<rparr>]))"

subsection \<open>Admin authentication\<close>

text \<open>
  \<open>x_admin_key\<close> is the header \<open>X-Admin-Key\<close>, \<open>None\<close> when the request has none;
  \<open>os.environ.get("ADMIN_KEY")\<close> is \<open>None\<close> when the variable is unset.
\<close>

definition require_admin :: "environment \<Rightarrow> string option \<Rightarrow> error + unit" where
  "require_admin environ x_admin_key =
     (if x_admin_key \<noteq> environ ''ADMIN_KEY''
      then Inl (HTTPException 401 ''Unauthorized'')
      else Inr ())"

subsection \<open>The handlers\<close>

text \<open>
  The expiry test of \<open>verify\<close>: \<open>expires_at and time.time() > expires_at\<close>.
\<close>

definition expired :: "real option \<Rightarrow> real \<Rightarrow> bool" where
  "expired e now = (truthy e \<and> (case e of None \<Rightarrow> False | Some x \<Rightarrow> now > x))"

definition verify :: "VerifyRequest \<Rightarrow> real \<Rightarrow> tokens \<Rightarrow> tokens outcome" where
  "verify data now tbl =
     (case select_token (VerifyRequest.token data) tbl of
        None \<Rightarrow> (Inl (HTTPException 401 ''Invalid token''), tbl)
      | Some r \<Rightarrow>
          if revoked r \<noteq> 0 then (Inl (HTTPException 403 ''Token revoked''), tbl)
          else if expired (expires_at r) now then (Inl (HTTPException 403 ''Token expired''), tbl)
          else (case hwid r of
                  None \<Rightarrow>
                    (Inr (Status ''ok''),
                     update_hwid (Some (VerifyRequest.hwid data)) (VerifyRequest.token data) tbl)
                | Some bound_hwid \<Rightarrow>
                    if bound_hwid \<noteq> VerifyRequest.hwid data
                    then (Inl (HTTPException 403 ''HWID mismatch''), tbl)
                    else (Inr (Status ''ok''), tbl)))"

definition invalid_plan_detail :: string where
  "invalid_plan_detail = ''Invalid plan. Valid plans: '' @ join '', '' plan_keys"

definition generate ::
  "GenerateRequest \<Rightarrow> real \<Rightarrow> (nat \<Rightarrow> 8 word) \<Rightarrow> tokens \<Rightarrow> tokens outcome" where
  "generate data now urandom tbl =
     (let plan = lower (plan data) in
      (case map_of PLAN_DURATIONS plan of
         None \<Rightarrow> (Inl (HTTPException 400 invalid_plan_detail), tbl)
       | Some duration \<Rightarrow>
          (let token = ''OLLY-'' @ upper (token_hex 12 urandom) in
           (let expires_at = (case duration of None \<Rightarrow> None | Some d \<Rightarrow> Some (now + of_int d)) in
            (case insert_token token expires_at tbl of
               Inl e \<Rightarrow> (Inl e, tbl)
             | Inr tbl' \<Rightarrow> (Inr (Generated token plan expires_at), tbl'))))))"

text \<open>
  The three admin handlers declare \<open>Depends(require_admin)\<close>: the framework runs the
  dependency first and calls the handler's body only when it did not raise.
\<close>

definition admin_verify ::
  "environment \<Rightarrow> string option \<Rightarrow> body \<Rightarrow> real \<Rightarrow> tokens \<Rightarrow> tokens outcome" where
  "admin_verify environ x_admin_key data now tbl =
     (case require_admin environ x_admin_key of
        Inl e \<Rightarrow> (Inl e, tbl)
      | Inr _ \<Rightarrow>
         (case data ''token'' of
            None \<Rightarrow> (Inl (KeyError ''token''), tbl)
          | Some t \<Rightarrow>
             (case select_token t tbl of
                None \<Rightarrow> (Inl (HTTPException 404 ''Token not found''), tbl)
              | Some r \<Rightarrow>
                  let seconds_remaining =
                        (if truthy (expires_at r)
                         then (case expires_at r of
                                 None \<Rightarrow> None
                               | Some x \<Rightarrow> Some (max 0 (py_int (x - now))))
                         else None)
                  in (Inr (Inspected t (hwid r) (revoked r \<noteq> 0) (expires_at r)
                            seconds_remaining), tbl))))"

definition admin_unbind ::
  "environment \<Rightarrow> string option \<Rightarrow> body \<Rightarrow> tokens \<Rightarrow> tokens outcome" where
  "admin_unbind environ x_admin_key data tbl =
     (case require_admin environ x_admin_key of
        Inl e \<Rightarrow> (Inl e, tbl)
      | Inr _ \<Rightarrow>
         (case data ''token'' of
            None \<Rightarrow> (Inl (KeyError ''token''), tbl)
          | Some t \<Rightarrow> (Inr (Status ''ok''), update_hwid None t tbl)))"

definition admin_revoke ::
  "environment \<Rightarrow> string option \<Rightarrow> body \<Rightarrow> tokens \<Rightarrow> tokens outcome" where
  "admin_revoke environ x_admin_key data tbl =
     (case require_admin environ x_admin_key of
        Inl e \<Rightarrow> (Inl e, tbl)
      | Inr _ \<Rightarrow>
         (case data ''token'' of
            None \<Rightarrow> (Inl (KeyError ''token''), tbl)
          | Some t \<Rightarrow> (Inr (Status ''revoked''), update_revoked t tbl)))"

subsection \<open>Sequences of requests\<close>

text \<open>
  One request to the service, together with what its handler reads from outside the
  table: the clock, the random bytes, the environment and the header.
\<close>

datatype request =
    PostVerify VerifyRequest real
  | PostGenerate GenerateRequest real "nat \<Rightarrow> 8 word"
  | PostAdminVerify environment "string option" body real
  | PostAdminUnbind environment "string option" body
  | PostAdminRevoke environment "string option" body

fun serve :: "request \<Rightarrow> tokens \<Rightarrow> tokens outcome" where
  "serve (PostVerify data now) tbl = verify data now tbl"
| "serve (PostGenerate data now urandom) tbl = generate data now urandom tbl"
| "serve (PostAdminVerify environ x_admin_key data now) tbl =
     admin_verify environ x_admin_key data now tbl"
| "serve (PostAdminUnbind environ x_admin_key data) tbl =
     admin_unbind environ x_admin_key data tbl"
| "serve (PostAdminRevoke environ x_admin_key data) tbl =
     admin_revoke environ x_admin_key data tbl"

text \<open>The table after a sequence of requests, served one after the other.\<close>

fun run :: "request list \<Rightarrow> tokens \<Rightarrow> tokens" where
  "run [] tbl = tbl"
| "run (q # qs) tbl = run qs (snd (serve q tbl))"

text \<open>
  What a request may do to the rows that are there: none goes away, each keeps its token,
  and a revoked one stays revoked.
\<close>

definition kept :: "tokens \<Rightarrow> tokens \<Rightarrow> bool" where
  "kept tbl tbl' \<longleftrightarrow>
     length tbl \<le> length tbl' \<and>
     (\<forall>i < length tbl. token (tbl' ! i) = token (tbl ! i) \<and>
        (revoked (tbl ! i) \<noteq> 0 \<longrightarrow> revoked (tbl' ! i) \<noteq> 0))"

text \<open>
  A request whose clock reads later than 31 December 1969, 00:00 UTC. Only \<open>generate\<close>
  stores a timestamp, so only its clock matters.
\<close>

fun clock_after_1969 :: "request \<Rightarrow> bool" where
  "clock_after_1969 (PostGenerate data now urandom) = (- 86400 < now)"
| "clock_after_1969 q = True"

text \<open>No row carries the timestamp \<open>0.0\<close>, the one float that \<open>if expires_at:\<close> takes for none.\<close>

definition no_zero_expiry :: "tokens \<Rightarrow> bool" where
  "no_zero_expiry tbl \<longleftrightarrow> (\<forall>r \<in> set tbl. expires_at r \<noteq> Some 0)"

section \<open>Admin authentication\<close>

text \<open>
  Claim C3 (the code departs from it): admin authentication succeeds exactly when the header
  \<open>X-Admin-Key\<close> is present and equal to the configured secret, whatever the
  configuration. Evaluated with \<open>ADMIN_KEY\<close> unset and no header, \<open>require_admin\<close>
  does not raise, and \<open>/admin/revoke\<close> revokes the token of an unauthenticated request.
\<close>

theorem require_admin_unset_no_header:
  "require_admin (map_of []) None = Inr ()
   \<and> admin_revoke (map_of []) None (map_of [(''token'', ''T'')])
         [\<lparr>token = ''T'', hwid = None, expires_at = None, revoked = 0\<rparr>]
       = (Inr (Status ''revoked''),
          [\<lparr>token = ''T'', hwid = None, expires_at = None, revoked = 1\<rparr>])"
  by (simp add: require_admin_def admin_revoke_def update_revoked_def)

text \<open>
  Claim C4: when the variable \<open>ADMIN_KEY\<close> is unset at request time, a request without the
  header \<open>X-Admin-Key\<close> passes the authentication of every admin endpoint, and the
  fallback secret of the module constant \<open>ADMIN_KEY\<close> plays no part in the check: a
  request that presents it is refused (\<open>environ0\<close> is the environment the module was
  loaded in).
\<close>

theorem admin_key_unset_bypass:
  assumes "environ ''ADMIN_KEY'' = None"
  shows "require_admin environ None = Inr ()
     \<and> fst (admin_verify environ None data now tbl) \<noteq> Inl (HTTPException 401 ''Unauthorized'')
     \<and> fst (admin_unbind environ None data tbl) \<noteq> Inl (HTTPException 401 ''Unauthorized'')
     \<and> fst (admin_revoke environ None data tbl) \<noteq> Inl (HTTPException 401 ''Unauthorized'')
     \<and> ADMIN_KEY environ = ''olly6969''
     \<and> require_admin environ (Some (ADMIN_KEY environ0)) = Inl (HTTPException 401 ''Unauthorized'')"
  using assms
  by (simp add: require_admin_def admin_verify_def admin_unbind_def admin_revoke_def
      ADMIN_KEY_def Let_def split: option.splits)

theorem admin_key_unset_bypass_witness:
  "require_admin (map_of []) None = Inr ()
   \<and> fst (admin_unbind (map_of []) None (map_of [(''token'', ''T'')])
            [\<lparr>token = ''T'', hwid = Some ''A'', expires_at = None, revoked = 0\<rparr>])
       \<noteq> Inl (HTTPException 401 ''Unauthorized'')
   \<and> require_admin (map_of []) (Some ''olly6969'') = Inl (HTTPException 401 ''Unauthorized'')"
  using admin_key_unset_bypass [of "map_of []" "map_of [(''token'', ''T'')]" 0
      "[\<lparr>token = ''T'', hwid = Some ''A'', expires_at = None, revoked = 0\<rparr>]" "map_of []"]
  by (simp add: ADMIN_KEY_def)

section \<open>Verification\<close>






text \<open>
  The expiry test reads \<open>expires_at\<close> by its truth value, so it is "set, not \<open>0.0\<close>, and
  strictly in the past". A row written with the timestamp \<open>0.0\<close> by hand is accepted at
  any time; the last section shows that the service never stores such a row.
\<close>

lemma expired_iff:
  "expired e now \<longleftrightarrow> (\<exists>x. e = Some x \<and> x \<noteq> 0 \<and> x < now)"
  by (cases e) (simp_all add: expired_def truthy_def)

lemma verify_zero_row:
  "verify \<lparr>VerifyRequest.token = ''T'', hwid = ''A''\<rparr> 1
       [\<lparr>token = ''T'', hwid = None, expires_at = Some 0, revoked = 0\<rparr>]
     = (Inr (Status ''ok''),
        [\<lparr>token = ''T'', hwid = Some ''A'', expires_at = Some 0, revoked = 0\<rparr>])"
  by (simp add: verify_def select_token_def expired_def truthy_def update_hwid_def)

section \<open>Token generation\<close>

lemmas ascii_defs = lower_def lower_char_def upper_def upper_char_def
  ascii_lowercase_def ascii_uppercase_def

lemma length_hex: "length (hex bs) = 2 * length bs"
  unfolding hex_def by (induction bs) simp_all

lemma length_token_hex: "length (token_hex n urandom) = 2 * n"
  by (simp add: token_hex_def token_bytes_def length_hex)

lemma upper_hexdigit:
  assumes "k < 16"
  shows "upper_char (hexdigits ! k) \<in> set ''0123456789ABCDEF''"
proof -
  from assms consider "k = 0" | "k = 1" | "k = 2" | "k = 3" | "k = 4" | "k = 5" | "k = 6"
    | "k = 7" | "k = 8" | "k = 9" | "k = 10" | "k = 11" | "k = 12" | "k = 13" | "k = 14"
    | "k = 15"
    by atomize_elim arith
  then show ?thesis
    by cases (simp_all add: hexdigits_def upper_char_def ascii_lowercase_def ascii_uppercase_def)
qed

lemma unat_byte_div: "unat (b :: 8 word) div 16 < 16"
proof -
  have "unat b < 2 ^ LENGTH(8)" by (rule unsigned_less)
  then show ?thesis by simp
qed

lemma set_hex: "set (hex bs) \<subseteq> {hexdigits ! k | k. k < 16}"
proof (induction bs)
  case Nil
  then show ?case by (simp add: hex_def)
next
  case (Cons b bs)
  have "unat b mod 16 < 16" by simp
  with Cons unat_byte_div [of b] show ?case
    unfolding hex_def by auto
qed

lemma set_upper_hex: "set (upper (hex bs)) \<subseteq> set ''0123456789ABCDEF''"
proof
  fix c
  assume "c \<in> set (upper (hex bs))"
  then obtain d where "d \<in> set (hex bs)" and c: "c = upper_char d"
    by (auto simp: upper_def)
  with set_hex [of bs] obtain k where "k < 16" and "d = hexdigits ! k"
    by auto
  with c upper_hexdigit [of k] show "c \<in> set ''0123456789ABCDEF''"
    by simp
qed

lemma PLAN_DURATIONS_seconds:
  "PLAN_DURATIONS =
     [(''1d'', Some 86400), (''3d'', Some 259200), (''1w'', Some 604800),
      (''2w'', Some 1209600), (''3w'', Some 1814400), (''6w'', Some 3628800),
      (''1m'', Some 2592000), (''2m'', Some 5184000), (''3m'', Some 7776000),
      (''6m'', Some 15552000), (''9m'', Some 23328000), (''1y'', Some 31536000),
      (''2y'', Some 63072000), (''infinite'', None)]"
  by (simp add: PLAN_DURATIONS_def)

lemma map_of_plan_None: "map_of PLAN_DURATIONS p = None \<longleftrightarrow> p \<notin> set plan_keys"
  by (simp add: plan_keys_def map_of_eq_None_iff)

lemma sublist_prepend: "sublist x ys \<Longrightarrow> sublist x (ps @ ys)"
proof -
  assume "sublist x ys"
  then obtain a b where "ys = a @ x @ b"
    by (auto simp: sublist_def)
  then have "ps @ ys = (ps @ a) @ x @ b" by simp
  then show ?thesis
    unfolding sublist_def by blast
qed

lemma sublist_join: "x \<in> set xs \<Longrightarrow> sublist x (join sep xs)"
proof (induction sep xs rule: join.induct)
  case (1 sep)
  then show ?case by simp
next
  case (2 sep y)
  then show ?case by simp
next
  case (3 sep y z zs)
  show ?case
  proof (cases "x = y")
    case True
    then show ?thesis by simp
  next
    case False
    with 3 have "sublist x (join sep (z # zs))" by simp
    then have "sublist x ((y @ sep) @ join sep (z # zs))"
      by (rule sublist_prepend)
    then show ?thesis by simp
  qed
qed

lemma lower_plan_key: "k \<in> set plan_keys \<Longrightarrow> lower k = k"
proof -
  have "\<forall>k \<in> set plan_keys. lower k = k"
    by (simp add: plan_keys_def PLAN_DURATIONS_def ascii_defs)
  then show "k \<in> set plan_keys \<Longrightarrow> lower k = k" by blast
qed

text \<open>
  Claim C5 as stated fails: a call with a valid plan does not always succeed. The token
  is drawn at random and inserted under a primary key, so a draw that repeats the token
  of a row raises \<open>sqlite3.IntegrityError\<close>, and no row is created.
\<close>

theorem generate_token_collision:
  "lower (plan \<lparr>plan = ''1d''\<rparr>) \<in> set plan_keys
   \<and> generate \<lparr>plan = ''1d''\<rparr> 5 of_nat
        [\<lparr>token = ''OLLY-000102030405060708090A0B'', hwid = None, expires_at = None,
           revoked = 0\<rparr>]
     = (Inl (IntegrityError ''UNIQUE constraint failed: tokens.token''),
        [\<lparr>token = ''OLLY-000102030405060708090A0B'', hwid = None, expires_at = None,
           revoked = 0\<rparr>])"
  by (simp add: generate_def ascii_defs plan_keys_def PLAN_DURATIONS_def token_hex_def
      token_bytes_def hex_def hexdigits_def upt_rec insert_token_def Let_def)

text \<open>
  Claim C5, as amended: for a valid plan and a drawn token that no row has yet,
  \<open>generate\<close> succeeds and appends exactly one row, whose token is \<open>OLLY-\<close> followed by
  24 uppercase hexadecimal characters, with \<open>revoked = 0\<close>, no hwid, and \<open>expires_at\<close>
  the current time plus the plan's duration of the table below (none for \<open>infinite\<close>);
  the response carries that token, the lowercased plan and that expiry.
\<close>

theorem generate_valid_plan:
  assumes "lower (plan data) \<in> set plan_keys"
    and "''OLLY-'' @ upper (token_hex 12 urandom) \<notin> set (map token tbl)"
  shows "PLAN_DURATIONS =
     [(''1d'', Some 86400), (''3d'', Some 259200), (''1w'', Some 604800),
      (''2w'', Some 1209600), (''3w'', Some 1814400), (''6w'', Some 3628800),
      (''1m'', Some 2592000), (''2m'', Some 5184000), (''3m'', Some 7776000),
      (''6m'', Some 15552000), (''9m'', Some 23328000), (''1y'', Some 31536000),
      (''2y'', Some 63072000), (''infinite'', None)]
    \<and> (\<exists>s duration.
          length s = 24 \<and> set s \<subseteq> set ''0123456789ABCDEF''
        \<and> map_of PLAN_DURATIONS (lower (plan data)) = Some duration
        \<and> generate data now urandom tbl =
            (Inr (Generated (''OLLY-'' @ s) (lower (plan data))
                    (map_option (\<lambda>d. now + real_of_int d) duration)),
             tbl @ [\<lparr>token = ''OLLY-'' @ s, hwid = None,
                      expires_at = map_option (\<lambda>d. now + real_of_int d) duration,
                      revoked = 0\<rparr>]))"
proof -
  let ?s = "upper (token_hex 12 urandom)"
  from assms(1) obtain duration where d: "map_of PLAN_DURATIONS (lower (plan data)) = Some duration"
    using map_of_plan_None [of "lower (plan data)"] by auto
  have len: "length ?s = 24"
    by (simp add: upper_def length_token_hex)
  have hexs: "set ?s \<subseteq> set ''0123456789ABCDEF''"
    unfolding token_hex_def by (rule set_upper_hex)
  have exp: "(case duration of None \<Rightarrow> None | Some d \<Rightarrow> Some (now + real_of_int d))
      = map_option (\<lambda>d. now + real_of_int d) duration"
    by (cases duration) simp_all
  have "generate data now urandom tbl =
      (Inr (Generated (''OLLY-'' @ ?s) (lower (plan data))
              (map_option (\<lambda>d. now + real_of_int d) duration)),
       tbl @ [\<lparr>token = ''OLLY-'' @ ?s, hwid = None,
                expires_at = map_option (\<lambda>d. now + real_of_int d) duration,
                revoked = 0\<rparr>])"
    using assms(2) by (simp add: generate_def Let_def d exp insert_token_def)
  with len hexs d show ?thesis
    using PLAN_DURATIONS_seconds by blast
qed

theorem generate_valid_plan_witness:
  "\<exists>s duration.
      length s = 24 \<and> set s \<subseteq> set ''0123456789ABCDEF''
    \<and> map_of PLAN_DURATIONS ''1d'' = Some duration
    \<and> generate \<lparr>plan = ''1D''\<rparr> 5 of_nat [] =
        (Inr (Generated (''OLLY-'' @ s) ''1d'' (map_option (\<lambda>d. 5 + real_of_int d) duration)),
         [\<lparr>token = ''OLLY-'' @ s, hwid = None,
            expires_at = map_option (\<lambda>d. 5 + real_of_int d) duration, revoked = 0\<rparr>])"
proof -
  have low: "lower ''1D'' = ''1d''"
    by (simp add: ascii_defs)
  have valid: "lower (plan \<lparr>plan = ''1D''\<rparr>) \<in> set plan_keys"
    by (simp add: low plan_keys_def PLAN_DURATIONS_def)
  have fresh: "''OLLY-'' @ upper (token_hex 12 of_nat) \<notin> set (map token [])"
    by simp
  from generate_valid_plan [OF valid fresh, of 5] show ?thesis
    by (simp add: low)
qed

text \<open>
  Claim C7: \<open>generate\<close> matches the plan against the table after lowercasing it. It
  fails with status 400 exactly when the lowercased plan is not a key, that is, when the
  plan equals no key up to case; the failure creates no row, and its message lists every
  key of the table.
\<close>

theorem generate_invalid_plan:
  "((\<exists>detail. fst (generate data now urandom tbl) = Inl (HTTPException 400 detail))
      \<longleftrightarrow> lower (plan data) \<notin> set plan_keys)
   \<and> (lower (plan data) \<notin> set plan_keys \<longleftrightarrow>
        \<not> (\<exists>k \<in> set plan_keys. lower (plan data) = lower k))
   \<and> (lower (plan data) \<notin> set plan_keys \<longrightarrow>
        generate data now urandom tbl = (Inl (HTTPException 400 invalid_plan_detail), tbl))
   \<and> (\<forall>k \<in> set plan_keys. sublist k invalid_plan_detail)
   \<and> invalid_plan_detail =
        ''Invalid plan. Valid plans: 1d, 3d, 1w, 2w, 3w, 6w, 1m, 2m, 3m, 6m, 9m, 1y, 2y, infinite''"
proof (intro conjI)
  show "(\<exists>detail. fst (generate data now urandom tbl) = Inl (HTTPException 400 detail))
      \<longleftrightarrow> lower (plan data) \<notin> set plan_keys"
    using map_of_plan_None [of "lower (plan data)"]
    by (auto simp: generate_def Let_def insert_token_def split: option.splits)
  show "lower (plan data) \<notin> set plan_keys \<longleftrightarrow>
        \<not> (\<exists>k \<in> set plan_keys. lower (plan data) = lower k)"
    using lower_plan_key by auto
  show "lower (plan data) \<notin> set plan_keys \<longrightarrow>
        generate data now urandom tbl = (Inl (HTTPException 400 invalid_plan_detail), tbl)"
  proof
    assume "lower (plan data) \<notin> set plan_keys"
    then have "map_of PLAN_DURATIONS (lower (plan data)) = None"
      by (simp add: map_of_plan_None)
    then show "generate data now urandom tbl =
        (Inl (HTTPException 400 invalid_plan_detail), tbl)"
      by (simp add: generate_def Let_def)
  qed
  show "\<forall>k \<in> set plan_keys. sublist k invalid_plan_detail"
  proof
    fix k
    assume "k \<in> set plan_keys"
    then have "sublist k (join '', '' plan_keys)" by (rule sublist_join)
    then show "sublist k invalid_plan_detail"
      unfolding invalid_plan_detail_def by (rule sublist_prepend)
  qed
  show "invalid_plan_detail =
        ''Invalid plan. Valid plans: 1d, 3d, 1w, 2w, 3w, 6w, 1m, 2m, 3m, 6m, 9m, 1y, 2y, infinite''"
    by (simp add: invalid_plan_detail_def plan_keys_def PLAN_DURATIONS_def)
qed

theorem generate_invalid_plan_witness:
  "generate \<lparr>plan = ''99x''\<rparr> 5 of_nat [] =
     (Inl (HTTPException 400
        ''Invalid plan. Valid plans: 1d, 3d, 1w, 2w, 3w, 6w, 1m, 2m, 3m, 6m, 9m, 1y, 2y, infinite''), [])
   \<and> sublist ''infinite'' invalid_plan_detail
   \<and> \<not> (\<exists>detail. fst (generate \<lparr>plan = ''3W''\<rparr> 5 of_nat []) = Inl (HTTPException 400 detail))"
proof -
  have bad: "lower (plan \<lparr>plan = ''99x''\<rparr>) \<notin> set plan_keys"
    and good: "lower (plan \<lparr>plan = ''3W''\<rparr>) \<in> set plan_keys"
    and key: "''infinite'' \<in> set plan_keys"
    by (simp_all add: ascii_defs plan_keys_def PLAN_DURATIONS_def)
  from generate_invalid_plan [of "\<lparr>plan = ''99x''\<rparr>" 5 of_nat "[]"] bad
  have 1: "generate \<lparr>plan = ''99x''\<rparr> 5 of_nat [] =
     (Inl (HTTPException 400
        ''Invalid plan. Valid plans: 1d, 3d, 1w, 2w, 3w, 6w, 1m, 2m, 3m, 6m, 9m, 1y, 2y, infinite''), [])"
    by simp
  from generate_invalid_plan [of "\<lparr>plan = ''99x''\<rparr>" 5 of_nat "[]"] key
  have 2: "sublist ''infinite'' invalid_plan_detail"
    by blast
  from generate_invalid_plan [of "\<lparr>plan = ''3W''\<rparr>" 5 of_nat "[]"] good
  have 3: "\<not> (\<exists>detail. fst (generate \<lparr>plan = ''3W''\<rparr> 5 of_nat []) = Inl (HTTPException 400 detail))"
    by blast
  from 1 2 3 show ?thesis by blast
qed

section \<open>The admin handlers\<close>













section \<open>Sequences of requests\<close>

lemma map_token_update_hwid: "map token (update_hwid v t tbl) = map token tbl"
  unfolding update_hwid_def by (induction tbl) simp_all

lemma map_token_update_revoked: "map token (update_revoked t tbl) = map token tbl"
  unfolding update_revoked_def by (induction tbl) simp_all

lemma nth_update_hwid:
  "i < length tbl \<Longrightarrow>
     update_hwid v t tbl ! i = (if token (tbl ! i) = t then (tbl ! i)\<lparr>hwid := v\<rparr> else tbl ! i)"
  by (simp add: update_hwid_def)

lemma nth_update_revoked:
  "i < length tbl \<Longrightarrow>
     update_revoked t tbl ! i = (if token (tbl ! i) = t then (tbl ! i)\<lparr>revoked := 1\<rparr> else tbl ! i)"
  by (simp add: update_revoked_def)

lemma select_token_distinct:
  "distinct (map token tbl) \<Longrightarrow> i < length tbl \<Longrightarrow> select_token (token (tbl ! i)) tbl = Some (tbl ! i)"
proof (induction tbl arbitrary: i)
  case Nil
  then show ?case by simp
next
  case (Cons a tbl)
  show ?case
  proof (cases i)
    case 0
    then show ?thesis by (simp add: select_token_def)
  next
    case (Suc j)
    with Cons.prems have j: "j < length tbl" and d: "distinct (map token tbl)"
      and "token a \<notin> set (map token tbl)"
      by simp_all
    then have "token a \<noteq> token (tbl ! j)"
      by (metis length_map nth_map nth_mem)
    with Cons.IH [OF d j] Suc show ?thesis
      by (simp add: select_token_def)
  qed
qed

lemma kept_refl: "kept tbl tbl"
  by (simp add: kept_def)

lemma kept_trans:
  assumes ab: "kept a b" and bc: "kept b c"
  shows "kept a c"
  unfolding kept_def
proof (intro conjI allI impI)
  from ab bc show "length a \<le> length c"
    by (simp add: kept_def)
next
  fix i
  assume i: "i < length a"
  with ab have ib: "i < length b"
    by (simp add: kept_def)
  from ab i have 1: "token (b ! i) = token (a ! i)"
    and 2: "revoked (a ! i) \<noteq> 0 \<longrightarrow> revoked (b ! i) \<noteq> 0"
    by (simp_all add: kept_def)
  from bc ib have 3: "token (c ! i) = token (b ! i)"
    and 4: "revoked (b ! i) \<noteq> 0 \<longrightarrow> revoked (c ! i) \<noteq> 0"
    by (simp_all add: kept_def)
  from 1 3 show "token (c ! i) = token (a ! i)" by simp
  assume "revoked (a ! i) \<noteq> 0"
  with 2 4 show "revoked (c ! i) \<noteq> 0" by blast
qed

lemma kept_update_hwid: "kept tbl (update_hwid v t tbl)"
  by (simp add: kept_def nth_update_hwid) (simp add: update_hwid_def)

lemma kept_update_revoked: "kept tbl (update_revoked t tbl)"
  by (simp add: kept_def nth_update_revoked) (simp add: update_revoked_def)

lemma kept_append: "kept tbl (tbl @ rs)"
  by (simp add: kept_def nth_append)

lemma kept_serve: "kept tbl (snd (serve q tbl))"
proof (cases q)
  case (PostVerify data now)
  then show ?thesis
    by (auto simp: verify_def kept_refl kept_update_hwid split: option.splits)
next
  case (PostGenerate data now urandom)
  then show ?thesis
    by (auto simp: generate_def insert_token_def Let_def kept_refl kept_append
        split: option.splits)
next
  case (PostAdminVerify environ key data now)
  then show ?thesis
    by (auto simp: admin_verify_def Let_def kept_refl split: option.splits sum.splits)
next
  case (PostAdminUnbind environ key data)
  then show ?thesis
    by (auto simp: admin_unbind_def kept_refl kept_update_hwid split: option.splits sum.splits)
next
  case (PostAdminRevoke environ key data)
  then show ?thesis
    by (auto simp: admin_revoke_def kept_refl kept_update_revoked split: option.splits sum.splits)
qed

lemma kept_run: "kept tbl (run reqs tbl)"
proof (induction reqs arbitrary: tbl)
  case Nil
  show ?case by (simp add: kept_refl)
next
  case (Cons q reqs)
  have "kept tbl (snd (serve q tbl))" by (rule kept_serve)
  moreover have "kept (snd (serve q tbl)) (run reqs (snd (serve q tbl)))" by (rule Cons.IH)
  ultimately show ?case by (simp add: kept_trans)
qed

lemma distinct_serve:
  assumes "distinct (map token tbl)"
  shows "distinct (map token (snd (serve q tbl)))"
proof (cases q)
  case (PostVerify data now)
  with assms show ?thesis
    by (auto simp: verify_def map_token_update_hwid split: option.splits)
next
  case (PostGenerate data now urandom)
  with assms show ?thesis
    by (auto simp: generate_def insert_token_def Let_def split: option.splits)
next
  case (PostAdminVerify environ key data now)
  with assms show ?thesis
    by (auto simp: admin_verify_def Let_def split: option.splits sum.splits)
next
  case (PostAdminUnbind environ key data)
  with assms show ?thesis
    by (auto simp: admin_unbind_def map_token_update_hwid split: option.splits sum.splits)
next
  case (PostAdminRevoke environ key data)
  with assms show ?thesis
    by (auto simp: admin_revoke_def map_token_update_revoked split: option.splits sum.splits)
qed

lemma distinct_run:
  "distinct (map token tbl) \<Longrightarrow> distinct (map token (run reqs tbl))"
  by (induction reqs arbitrary: tbl) (simp_all add: distinct_serve)

lemma verify_writes:
  assumes "snd (verify data now tbl) \<noteq> tbl"
  shows "\<exists>r. select_token (VerifyRequest.token data) tbl = Some r \<and> revoked r = 0
           \<and> \<not> expired (expires_at r) now \<and> hwid r = None
           \<and> snd (verify data now tbl) =
               update_hwid (Some (VerifyRequest.hwid data)) (VerifyRequest.token data) tbl"
  using assms by (auto simp: verify_def split: option.splits if_splits)

lemma admin_unbind_writes:
  assumes "snd (admin_unbind environ key data tbl) \<noteq> tbl"
  shows "\<exists>t. require_admin environ key = Inr () \<and> data ''token'' = Some t
           \<and> snd (admin_unbind environ key data tbl) = update_hwid None t tbl"
  using assms by (auto simp: admin_unbind_def split: option.splits sum.splits)

lemma generate_nth:
  "i < length tbl \<Longrightarrow> snd (generate data now urandom tbl) ! i = tbl ! i"
  by (auto simp: generate_def insert_token_def Let_def nth_append split: option.splits)

lemma admin_verify_reads: "snd (admin_verify environ key data now tbl) = tbl"
  by (auto simp: admin_verify_def Let_def split: option.splits sum.splits)

lemma admin_revoke_hwid:
  "i < length tbl \<Longrightarrow> hwid (snd (admin_revoke environ key data tbl) ! i) = hwid (tbl ! i)"
  by (auto simp: admin_revoke_def nth_update_revoked split: option.splits sum.splits)

lemma serve_hwid_change:
  assumes d: "distinct (map token tbl)" and i: "i < length tbl"
    and ch: "hwid (snd (serve q tbl) ! i) \<noteq> hwid (tbl ! i)"
  shows "(\<exists>data now. q = PostVerify data now
            \<and> VerifyRequest.token data = token (tbl ! i)
            \<and> hwid (tbl ! i) = None
            \<and> hwid (snd (serve q tbl) ! i) = Some (VerifyRequest.hwid data)
            \<and> revoked (tbl ! i) = 0
            \<and> \<not> expired (expires_at (tbl ! i)) now)
       \<or> (\<exists>environ key data. q = PostAdminUnbind environ key data
            \<and> require_admin environ key = Inr ()
            \<and> data ''token'' = Some (token (tbl ! i))
            \<and> hwid (snd (serve q tbl) ! i) = None)"
proof (cases q)
  case (PostVerify data now)
  with ch have "snd (verify data now tbl) \<noteq> tbl" by auto
  then obtain r where sel: "select_token (VerifyRequest.token data) tbl = Some r"
    and r: "revoked r = 0" "\<not> expired (expires_at r) now" "hwid r = None"
    and tbl': "snd (verify data now tbl) =
        update_hwid (Some (VerifyRequest.hwid data)) (VerifyRequest.token data) tbl"
    using verify_writes by blast
  from ch PostVerify tbl' i have tok: "token (tbl ! i) = VerifyRequest.token data"
    by (auto simp: nth_update_hwid split: if_splits)
  with select_token_distinct [OF d i] sel have "r = tbl ! i" by simp
  with r tok tbl' i PostVerify show ?thesis
    by (simp add: nth_update_hwid)
next
  case (PostGenerate data now urandom)
  with ch i show ?thesis by (simp add: generate_nth)
next
  case (PostAdminVerify environ key data now)
  with ch show ?thesis by (simp add: admin_verify_reads)
next
  case (PostAdminUnbind environ key data)
  with ch have "snd (admin_unbind environ key data tbl) \<noteq> tbl" by auto
  then obtain t where auth: "require_admin environ key = Inr ()" and t: "data ''token'' = Some t"
    and tbl': "snd (admin_unbind environ key data tbl) = update_hwid None t tbl"
    using admin_unbind_writes by blast
  from ch PostAdminUnbind tbl' i have "token (tbl ! i) = t"
    by (auto simp: nth_update_hwid split: if_splits)
  with auth t tbl' i PostAdminUnbind show ?thesis
    by (simp add: nth_update_hwid)
next
  case (PostAdminRevoke environ key data)
  with ch i show ?thesis by (simp add: admin_revoke_hwid)
qed

text \<open>
  Claim C10: across every sequence of requests, starting from any table whose tokens are
  distinct (the primary key), no row goes away, each row keeps its token, and a revoked
  row stays revoked. In every table so reached, a request changes the hwid of a row only
  if it is a \<open>verify\<close> for that row's token, the row had no hwid, was not revoked and
  passed the expiry test, and the new hwid is the supplied one; or if it is an
  authenticated \<open>admin_unbind\<close> for that row's token, and the new hwid is none.
\<close>

theorem run_keeps_records:
  assumes "distinct (map token tbl)"
  shows "length tbl \<le> length (run reqs tbl)
     \<and> (\<forall>i < length tbl.
           token (run reqs tbl ! i) = token (tbl ! i)
         \<and> (revoked (tbl ! i) \<noteq> 0 \<longrightarrow> revoked (run reqs tbl ! i) \<noteq> 0))
     \<and> (i < length (run reqs tbl)
          \<and> hwid (snd (serve q (run reqs tbl)) ! i) \<noteq> hwid (run reqs tbl ! i) \<longrightarrow>
           (\<exists>data now. q = PostVerify data now
              \<and> VerifyRequest.token data = token (run reqs tbl ! i)
              \<and> hwid (run reqs tbl ! i) = None
              \<and> hwid (snd (serve q (run reqs tbl)) ! i) = Some (VerifyRequest.hwid data)
              \<and> revoked (run reqs tbl ! i) = 0
              \<and> \<not> expired (expires_at (run reqs tbl ! i)) now)
         \<or> (\<exists>environ key data. q = PostAdminUnbind environ key data
              \<and> require_admin environ key = Inr ()
              \<and> data ''token'' = Some (token (run reqs tbl ! i))
              \<and> hwid (snd (serve q (run reqs tbl)) ! i) = None))"
proof (intro conjI impI)
  from kept_run [of tbl reqs] show "length tbl \<le> length (run reqs tbl)"
    by (simp add: kept_def)
  from kept_run [of tbl reqs] show "\<forall>i < length tbl.
           token (run reqs tbl ! i) = token (tbl ! i)
         \<and> (revoked (tbl ! i) \<noteq> 0 \<longrightarrow> revoked (run reqs tbl ! i) \<noteq> 0)"
    by (simp add: kept_def)
next
  assume step: "i < length (run reqs tbl)
          \<and> hwid (snd (serve q (run reqs tbl)) ! i) \<noteq> hwid (run reqs tbl ! i)"
  from assms have "distinct (map token (run reqs tbl))" by (rule distinct_run)
  with step show "(\<exists>data now. q = PostVerify data now
              \<and> VerifyRequest.token data = token (run reqs tbl ! i)
              \<and> hwid (run reqs tbl ! i) = None
              \<and> hwid (snd (serve q (run reqs tbl)) ! i) = Some (VerifyRequest.hwid data)
              \<and> revoked (run reqs tbl ! i) = 0
              \<and> \<not> expired (expires_at (run reqs tbl ! i)) now)
         \<or> (\<exists>environ key data. q = PostAdminUnbind environ key data
              \<and> require_admin environ key = Inr ()
              \<and> data ''token'' = Some (token (run reqs tbl ! i))
              \<and> hwid (snd (serve q (run reqs tbl)) ! i) = None)"
    using serve_hwid_change [of "run reqs tbl" i q] by blast
qed

theorem run_keeps_records_witness:
  "length [\<lparr>token = ''T'', hwid = Some ''A'', expires_at = None, revoked = 1\<rparr>]
     \<le> length (run [PostVerify \<lparr>VerifyRequest.token = ''T'', hwid = ''B''\<rparr> 50,
                     PostAdminUnbind (map_of [(''ADMIN_KEY'', ''s'')]) (Some ''s'')
                       (map_of [(''token'', ''T'')]),
                     PostGenerate \<lparr>plan = ''1d''\<rparr> 5 of_nat]
                [\<lparr>token = ''T'', hwid = Some ''A'', expires_at = None, revoked = 1\<rparr>])
   \<and> token (run [PostVerify \<lparr>VerifyRequest.token = ''T'', hwid = ''B''\<rparr> 50,
                   PostAdminUnbind (map_of [(''ADMIN_KEY'', ''s'')]) (Some ''s'')
                     (map_of [(''token'', ''T'')]),
                   PostGenerate \<lparr>plan = ''1d''\<rparr> 5 of_nat]
              [\<lparr>token = ''T'', hwid = Some ''A'', expires_at = None, revoked = 1\<rparr>] ! 0) = ''T''
   \<and> revoked (run [PostVerify \<lparr>VerifyRequest.token = ''T'', hwid = ''B''\<rparr> 50,
                     PostAdminUnbind (map_of [(''ADMIN_KEY'', ''s'')]) (Some ''s'')
                       (map_of [(''token'', ''T'')]),
                     PostGenerate \<lparr>plan = ''1d''\<rparr> 5 of_nat]
                [\<lparr>token = ''T'', hwid = Some ''A'', expires_at = None, revoked = 1\<rparr>] ! 0) \<noteq> 0
   \<and> (\<exists>environ key data.
          PostAdminUnbind (map_of [(''ADMIN_KEY'', ''s'')]) (Some ''s'') (map_of [(''token'', ''T'')])
            = PostAdminUnbind environ key data
        \<and> require_admin environ key = Inr ()
        \<and> data ''token'' = Some ''T'')
   \<and> (\<exists>data now.
          PostVerify \<lparr>VerifyRequest.token = ''T'', hwid = ''A''\<rparr> 50 = PostVerify data now
        \<and> VerifyRequest.token data = ''T''
        \<and> \<not> expired (Some 100) now)"
proof -
  let ?dead = "\<lparr>token = ''T'', hwid = Some ''A'', expires_at = None, revoked = 1\<rparr>"
  let ?open = "\<lparr>token = ''T'', hwid = None, expires_at = Some 100, revoked = 0\<rparr>"
  let ?unbind = "PostAdminUnbind (map_of [(''ADMIN_KEY'', ''s'')]) (Some ''s'')
      (map_of [(''token'', ''T'')])"
  let ?verify = "PostVerify \<lparr>VerifyRequest.token = ''T'', hwid = ''A''\<rparr> 50"
  let ?reqs = "[PostVerify \<lparr>VerifyRequest.token = ''T'', hwid = ''B''\<rparr> 50, ?unbind,
      PostGenerate \<lparr>plan = ''1d''\<rparr> 5 of_nat]"
  have pk: "distinct (map token [?dead])" "distinct (map token [?open])"
    by simp_all
  have unbound: "hwid (snd (serve ?unbind [?dead]) ! 0) \<noteq> hwid ([?dead] ! 0)"
    by (simp add: admin_unbind_def require_admin_def update_hwid_def)
  have bound: "hwid (snd (serve ?verify [?open]) ! 0) \<noteq> hwid ([?open] ! 0)"
    by (simp add: verify_def select_token_def expired_def truthy_def update_hwid_def)
  from run_keeps_records [OF pk(1), where reqs = ?reqs]
  have 1: "length [?dead] \<le> length (run ?reqs [?dead])"
    and 2: "token (run ?reqs [?dead] ! 0) = ''T''"
    and 3: "revoked (run ?reqs [?dead] ! 0) \<noteq> 0"
    by simp_all
  from run_keeps_records [OF pk(1), where reqs = "[]" and q = ?unbind and i = 0] unbound
  have 4: "\<exists>environ key data. ?unbind = PostAdminUnbind environ key data
        \<and> require_admin environ key = Inr () \<and> data ''token'' = Some ''T''"
    by simp
  from run_keeps_records [OF pk(2), where reqs = "[]" and q = ?verify and i = 0] bound
  have 5: "\<exists>data now. ?verify = PostVerify data now \<and> VerifyRequest.token data = ''T''
        \<and> \<not> expired (Some 100) now"
    by simp
  from 1 2 3 4 5 show ?thesis by blast
qed

section \<open>Expiry on the tables the service produces\<close>

lemma plan_duration_day:
  assumes "map_of PLAN_DURATIONS p = Some (Some d)"
  shows "86400 \<le> d"
proof -
  have all: "\<forall>kv \<in> set PLAN_DURATIONS. \<forall>d. snd kv = Some d \<longrightarrow> 86400 \<le> d"
    by (simp add: PLAN_DURATIONS_def)
  from assms have "(p, Some d) \<in> set PLAN_DURATIONS"
    by (rule map_of_SomeD)
  with all show ?thesis by fastforce
qed

lemma no_zero_update_hwid:
  assumes "no_zero_expiry tbl"
  shows "no_zero_expiry (update_hwid v t tbl)"
  unfolding no_zero_expiry_def
proof
  fix r
  assume "r \<in> set (update_hwid v t tbl)"
  then have "r \<in> (\<lambda>x. if token x = t then x\<lparr>hwid := v\<rparr> else x) ` set tbl"
    by (simp only: update_hwid_def set_map)
  then obtain x where x: "x \<in> set tbl" and r: "r = (if token x = t then x\<lparr>hwid := v\<rparr> else x)"
    by blast
  from r have "expires_at r = expires_at x"
    by (cases "token x = t") simp_all
  with assms x show "expires_at r \<noteq> Some 0"
    by (simp add: no_zero_expiry_def)
qed

lemma no_zero_update_revoked:
  assumes "no_zero_expiry tbl"
  shows "no_zero_expiry (update_revoked t tbl)"
  unfolding no_zero_expiry_def
proof
  fix r
  assume "r \<in> set (update_revoked t tbl)"
  then have "r \<in> (\<lambda>x. if token x = t then x\<lparr>revoked := 1\<rparr> else x) ` set tbl"
    by (simp only: update_revoked_def set_map)
  then obtain x where x: "x \<in> set tbl" and r: "r = (if token x = t then x\<lparr>revoked := 1\<rparr> else x)"
    by blast
  from r have "expires_at r = expires_at x"
    by (cases "token x = t") simp_all
  with assms x show "expires_at r \<noteq> Some 0"
    by (simp add: no_zero_expiry_def)
qed

lemma no_zero_generate:
  assumes "no_zero_expiry tbl" and "- 86400 < now"
  shows "no_zero_expiry (snd (generate data now urandom tbl))"
proof (cases "map_of PLAN_DURATIONS (lower (plan data))")
  case None
  with assms(1) show ?thesis by (simp add: generate_def Let_def)
next
  case (Some duration)
  have e: "(case duration of None \<Rightarrow> None | Some d \<Rightarrow> Some (now + real_of_int d)) \<noteq> Some 0"
  proof (cases duration)
    case None
    then show ?thesis by simp
  next
    case (Some d)
    with \<open>map_of PLAN_DURATIONS (lower (plan data)) = Some duration\<close>
    have "86400 \<le> d" by (simp add: plan_duration_day)
    then have "(86400 :: real) \<le> real_of_int d" by linarith
    with assms(2) have "now + real_of_int d \<noteq> 0" by linarith
    with Some show ?thesis by simp
  qed
  with assms(1) Some show ?thesis
    by (auto simp: generate_def Let_def insert_token_def no_zero_expiry_def)
qed

lemma no_zero_serve:
  assumes "no_zero_expiry tbl" and "clock_after_1969 q"
  shows "no_zero_expiry (snd (serve q tbl))"
proof (cases q)
  case (PostVerify data now)
  with assms(1) show ?thesis
    by (auto simp: verify_def no_zero_update_hwid split: option.splits)
next
  case (PostGenerate data now urandom)
  with assms show ?thesis by (simp add: no_zero_generate)
next
  case (PostAdminVerify environ key data now)
  with assms(1) show ?thesis by (simp add: admin_verify_reads)
next
  case (PostAdminUnbind environ key data)
  with assms(1) show ?thesis
    by (auto simp: admin_unbind_def no_zero_update_hwid split: option.splits sum.splits)
next
  case (PostAdminRevoke environ key data)
  with assms(1) show ?thesis
    by (auto simp: admin_revoke_def no_zero_update_revoked split: option.splits sum.splits)
qed

lemma no_zero_run:
  "no_zero_expiry tbl \<Longrightarrow> \<forall>q \<in> set reqs. clock_after_1969 q \<Longrightarrow> no_zero_expiry (run reqs tbl)"
  by (induction reqs arbitrary: tbl) (simp_all add: no_zero_serve)

lemma select_token_mem: "select_token t tbl = Some r \<Longrightarrow> r \<in> set tbl"
  unfolding select_token_def by (auto simp: find_Some_iff)

text \<open>
  Claim C6: on an existing row that is not revoked, \<open>verify\<close> fails with 403
  \<open>Token expired\<close> exactly when \<open>expires_at\<close> is set and strictly in the past, and a row
  without \<open>expires_at\<close> never fails so. This holds on every table the service produces:
  any sequence of requests from the empty table that \<open>init_db\<close> creates, the clock of
  each \<open>generate\<close> reading later than 31 December 1969.
\<close>

theorem verify_expired_exactly:
  assumes "\<forall>q \<in> set reqs. clock_after_1969 q"
    and "select_token (VerifyRequest.token data) (run reqs []) = Some r"
    and "revoked r = 0"
  shows "(verify data now (run reqs []) = (Inl (HTTPException 403 ''Token expired''), run reqs [])
            \<longleftrightarrow> (\<exists>x. expires_at r = Some x \<and> x < now))
     \<and> (fst (verify data now (run reqs [])) = Inl (HTTPException 403 ''Token expired'')
            \<longleftrightarrow> (\<exists>x. expires_at r = Some x \<and> x < now))
     \<and> (expires_at r = None \<longrightarrow>
            fst (verify data now (run reqs [])) \<noteq> Inl (HTTPException 403 ''Token expired''))"
proof -
  have "no_zero_expiry []" by (simp add: no_zero_expiry_def)
  with assms(1) have "no_zero_expiry (run reqs [])" by (simp add: no_zero_run)
  with assms(2) have "expires_at r \<noteq> Some 0"
    using select_token_mem [OF assms(2)] by (simp add: no_zero_expiry_def)
  then have past: "expired (expires_at r) now \<longleftrightarrow> (\<exists>x. expires_at r = Some x \<and> x < now)"
    by (auto simp: expired_iff)
  from assms(2,3) have
    "fst (verify data now (run reqs [])) = Inl (HTTPException 403 ''Token expired'')
       \<longleftrightarrow> expired (expires_at r) now"
    and "verify data now (run reqs []) = (Inl (HTTPException 403 ''Token expired''), run reqs [])
       \<longleftrightarrow> expired (expires_at r) now"
    by (auto simp: verify_def split: option.splits)
  with past show ?thesis by auto
qed

theorem verify_expired_exactly_witness:
  "verify \<lparr>VerifyRequest.token = ''OLLY-000102030405060708090A0B'', hwid = ''A''\<rparr> 100000
       (run [PostGenerate \<lparr>plan = ''1d''\<rparr> 5 of_nat] [])
     = (Inl (HTTPException 403 ''Token expired''),
        run [PostGenerate \<lparr>plan = ''1d''\<rparr> 5 of_nat] [])
   \<and> fst (verify \<lparr>VerifyRequest.token = ''OLLY-000102030405060708090A0B'', hwid = ''A''\<rparr> 50
            (run [PostGenerate \<lparr>plan = ''1d''\<rparr> 5 of_nat] []))
       \<noteq> Inl (HTTPException 403 ''Token expired'')
   \<and> fst (verify \<lparr>VerifyRequest.token = ''OLLY-000102030405060708090A0B'', hwid = ''A''\<rparr> 100000
            (run [PostGenerate \<lparr>plan = ''infinite''\<rparr> 5 of_nat] []))
       \<noteq> Inl (HTTPException 403 ''Token expired'')"
proof -
  let ?tok = "''OLLY-000102030405060708090A0B''"
  let ?A = "\<lparr>VerifyRequest.token = ?tok, hwid = ''A''\<rparr>"
  let ?day = "[PostGenerate \<lparr>plan = ''1d''\<rparr> 5 of_nat]"
  let ?ever = "[PostGenerate \<lparr>plan = ''infinite''\<rparr> 5 of_nat]"
  let ?timed = "\<lparr>token = ?tok, hwid = None, expires_at = Some 86405, revoked = 0\<rparr>"
  let ?open = "\<lparr>token = ?tok, hwid = None, expires_at = None, revoked = 0\<rparr>"
  have day: "run ?day [] = [?timed]" and ever: "run ?ever [] = [?open]"
    by (simp_all add: generate_def ascii_defs PLAN_DURATIONS_def token_hex_def token_bytes_def
        hex_def hexdigits_def upt_rec insert_token_def Let_def)
  have clocks: "\<forall>q \<in> set ?day. clock_after_1969 q" "\<forall>q \<in> set ?ever. clock_after_1969 q"
    by simp_all
  have sel_day: "select_token (VerifyRequest.token ?A) (run ?day []) = Some ?timed"
    and sel_ever: "select_token (VerifyRequest.token ?A) (run ?ever []) = Some ?open"
    using day ever by (simp_all add: select_token_def)
  have live: "revoked ?timed = 0" "revoked ?open = 0"
    by simp_all
  from verify_expired_exactly [OF clocks(1) sel_day live(1), where now = 100000]
  have 1: "verify ?A 100000 (run ?day []) = (Inl (HTTPException 403 ''Token expired''), run ?day [])"
    by simp
  from verify_expired_exactly [OF clocks(1) sel_day live(1), where now = 50]
  have 2: "fst (verify ?A 50 (run ?day [])) \<noteq> Inl (HTTPException 403 ''Token expired'')"
    by simp
  from verify_expired_exactly [OF clocks(2) sel_ever live(2), where now = 100000]
  have 3: "fst (verify ?A 100000 (run ?ever [])) \<noteq> Inl (HTTPException 403 ''Token expired'')"
    by simp
  from 1 2 3 show ?thesis by blast
qed

end
